theory Spec2Isabelle
  imports Complex_Main
begin

section \<open>The dual n-back trial engine of \<open>DualNBackApp\<close>\<close>

text \<open>
  The engine is the React component \<open>DualNBackApp\<close>. Its \<open>useState\<close> cells are the
  fields of the record \<open>App\<close>; one value of \<open>App\<close> is the state of one render. Every
  callback of the component (the interval callback, \<open>handlePress\<close>, \<open>start\<close>, \<open>stop\<close>,
  \<open>resetBlock\<close>) is a closure over the render in which it was created: it reads the
  cells of that render and writes through the setters. A callback that runs at once
  (a button, the interval through \<open>savedCallback\<close>) reads the latest render; a
  callback handed to \<open>setTimeout\<close> keeps the render of the moment it was created and
  runs later. The pending timeouts are therefore part of the state (\<open>Sys\<close>), each
  with the render it captured.

  JavaScript numbers are doubles. The counters, which start at 0 and are only ever
  incremented by a tick, a press or a timer, are \<open>nat\<close>. The cells \<open>n\<close> and \<open>speedMs\<close>
  hold whole numbers and are \<open>int\<close>; \<open>n\<close> can be typed into its field at any size,
  so where the component adds to it or subtracts from it (\<open>n + 1\<close> and \<open>n - 1\<close> at
  the end of a block) the model rounds the result as a double is rounded
  (\<open>toDouble\<close>). The index \<open>stream.length - 1 - n\<close> of a match test needs no rounding:
  it is exact whenever it is not negative, and a negative one stays negative. An
  accuracy, the quotient of two counters, is a \<open>real\<close>. (JavaScript rounds the
  quotient to a double and compares it with the doubles nearest 0.75 and 0.55. A
  quotient of two counters that is not 3/4 or 11/20 itself differs from it by at
  least 1 / (20 * attempts), far more than the rounding as long as the attempts
  stay below 2^50, so the comparisons come out as they do here.) The random draw of
  \<open>generateNextStimulus\<close> is the argument of the tick. Audio output (\<open>speak\<close>,
  \<open>makeBeep\<close>, \<open>unlockAudioOnce\<close>) has no effect on the cells and is left out.
  Time is left out as well: a pending timeout can expire at any moment and in any
  order, which allows every order the clock allows.
\<close>

subsection \<open>Data\<close>

record Stimulus =
  pos :: nat
  letter :: string

definition LETTER_POOL :: "string list" where
  "LETTER_POOL = [''A'', ''E'', ''I'', ''O'', ''U'', ''B'', ''K'', ''M'', ''P'', ''S'', ''T'']"

definition GRID_SIZE :: nat where
  "GRID_SIZE = 3"

definition DEFAULT_BLOCK_LEN :: nat where
  "DEFAULT_BLOCK_LEN = 20"

text \<open>
  What \<open>generateNextStimulus\<close> can return: \<open>randInt\<close> gives a position below
  \<open>GRID_SIZE * GRID_SIZE\<close> and an index into \<open>LETTER_POOL\<close>.
\<close>

definition generated :: "Stimulus \<Rightarrow> bool" where
  "generated x = (pos x < GRID_SIZE * GRID_SIZE \<and> letter x \<in> set LETTER_POOL)"

record Tally =
  posHits :: nat
  posMisses :: nat
  posFalse :: nat
  sndHits :: nat
  sndMisses :: nat
  sndFalse :: nat

definition emptyTally :: Tally where
  "emptyTally = \<lparr>posHits = 0, posMisses = 0, posFalse = 0, sndHits = 0, sndMisses = 0, sndFalse = 0\<rparr>"

datatype Kind = Pos | Snd

record App =
  running :: bool
  n :: int
  speedMs :: int
  blockLen :: nat
  trialIdx :: nat
  stream :: "Stimulus list"
  current :: "Stimulus option"
  tally :: Tally
  allowPressPos :: bool
  allowPressSnd :: bool
  audioEnabled :: bool
  useSpeech :: bool
  voice :: "string option"
  lang :: string

text \<open>The cells as the first render has them (the arguments of the \<open>useState\<close> calls).\<close>

definition initApp :: App where
  "initApp = \<lparr>running = False, n = 2, speedMs = 2500, blockLen = DEFAULT_BLOCK_LEN, trialIdx = 0,
     stream = [], current = None, tally = emptyTally, allowPressPos = True, allowPressSnd = True,
     audioEnabled = False, useSpeech = False, voice = None, lang = ''en-US''\<rparr>"

text \<open>
  A pending timeout: the miss timer of a trial, with the render captured by the tick
  that created it and the stimulus \<open>next\<close> of that tick; or the block reset scheduled
  at the end of a block, with its \<open>nextN\<close>.
\<close>

datatype Timer = MissTimer App Stimulus | ResetTimer int

record Sys =
  app :: App
  pending :: "Timer list"

definition initSys :: Sys where
  "initSys = \<lparr>app = initApp, pending = []\<rparr>"

subsection \<open>Reading the stream\<close>

text \<open>
  \<open>stream[i]\<close> in JavaScript is \<open>undefined\<close> outside the array, and
  \<open>stream[i]?.pos === x\<close> is then false.
\<close>

definition elemAt :: "'a list \<Rightarrow> int \<Rightarrow> 'a option" where
  "elemAt xs i = (if 0 \<le> i \<and> i < int (length xs) then Some (xs ! nat i) else None)"

subsection \<open>\<open>resetBlock\<close>, \<open>start\<close>, \<open>stop\<close>\<close>

definition resetBlock :: "int option \<Rightarrow> App \<Rightarrow> App" where
  "resetBlock nextN a =
     (let a1 = a\<lparr>trialIdx := 0, stream := [], current := None, tally := emptyTally,
                 allowPressPos := True, allowPressSnd := True\<rparr>
      in case nextN of None \<Rightarrow> a1 | Some v \<Rightarrow> a1\<lparr>n := max 1 v\<rparr>)"

definition start :: "App \<Rightarrow> App" where
  "start a = (resetBlock None (a\<lparr>audioEnabled := True\<rparr>))\<lparr>running := True\<rparr>"

definition stop :: "App \<Rightarrow> App" where
  "stop a = a\<lparr>running := False, current := None\<rparr>"

subsection \<open>The accuracies shown by the component\<close>

definition posAcc :: "Tally \<Rightarrow> real" where
  "posAcc t =
     (let posAttempts = posHits t + posMisses t
      in if posAttempts \<noteq> 0 then real (posHits t) / real posAttempts else 0)"

definition sndAcc :: "Tally \<Rightarrow> real" where
  "sndAcc t =
     (let sndAttempts = sndHits t + sndMisses t
      in if sndAttempts \<noteq> 0 then real (sndHits t) / real sndAttempts else 0)"

definition combinedAcc :: "Tally \<Rightarrow> real" where
  "combinedAcc t =
     (let posAttempts = posHits t + posMisses t;
          sndAttempts = sndHits t + sndMisses t;
          combinedAttempts = posAttempts + sndAttempts;
          combinedHits = posHits t + sndHits t
      in if combinedAttempts \<noteq> 0 then real combinedHits / real combinedAttempts else 0)"

subsection \<open>\<open>handlePress\<close>\<close>

text \<open>The constants \<open>posMatch\<close> and \<open>sndMatch\<close> of \<open>handlePress\<close>.\<close>

definition pressPosMatch :: "App \<Rightarrow> Stimulus \<Rightarrow> bool" where
  "pressPosMatch a cur =
     (let idx = int (length (stream a)) - 1;
          prevIdx = idx - n a
      in prevIdx \<ge> 0 \<and> map_option pos (elemAt (stream a) prevIdx) = Some (pos cur))"

definition pressSndMatch :: "App \<Rightarrow> Stimulus \<Rightarrow> bool" where
  "pressSndMatch a cur =
     (let idx = int (length (stream a)) - 1;
          prevIdx = idx - n a
      in prevIdx \<ge> 0 \<and> map_option letter (elemAt (stream a) prevIdx) = Some (letter cur))"

definition handlePress :: "Kind \<Rightarrow> App \<Rightarrow> App" where
  "handlePress kind a =
     (case current a of
        None \<Rightarrow> a
      | Some cur \<Rightarrow>
          (let prev = tally a;
               posMatch = pressPosMatch a cur;
               sndMatch = pressSndMatch a cur;
               upd = (case kind of
                        Pos \<Rightarrow> if \<not> allowPressPos a then prev
                               else if posMatch then prev\<lparr>posHits := posHits prev + 1\<rparr>
                               else prev\<lparr>posFalse := posFalse prev + 1\<rparr>
                      | Snd \<Rightarrow> if \<not> allowPressSnd a then prev
                               else if sndMatch then prev\<lparr>sndHits := sndHits prev + 1\<rparr>
                               else prev\<lparr>sndFalse := sndFalse prev + 1\<rparr>)
           in case kind of
                Pos \<Rightarrow> a\<lparr>tally := upd, allowPressPos := False\<rparr>
              | Snd \<Rightarrow> a\<lparr>tally := upd, allowPressSnd := False\<rparr>))"

subsection \<open>The interval callback and its miss timer\<close>

text \<open>
  The body of the timeout created by a tick. \<open>c\<close> is the render the tick ran in:
  \<open>stream\<close>, \<open>n\<close>, \<open>allowPressPos\<close> and \<open>allowPressSnd\<close> are read from it, and
  \<open>indexForMiss\<close> is the length of its stream. Only \<open>prev\<close>, the argument of the
  updater given to \<open>setTally\<close>, is the tally of the moment the timer fires.
\<close>

definition missPosMatch :: "App \<Rightarrow> Stimulus \<Rightarrow> bool" where
  "missPosMatch c nxt =
     (let indexForMiss = int (length (stream c))
      in indexForMiss - n c \<ge> 0 \<and>
         map_option pos (elemAt (stream c) (indexForMiss - n c)) = Some (pos nxt))"

definition missSndMatch :: "App \<Rightarrow> Stimulus \<Rightarrow> bool" where
  "missSndMatch c nxt =
     (let indexForMiss = int (length (stream c))
      in indexForMiss - n c \<ge> 0 \<and>
         map_option letter (elemAt (stream c) (indexForMiss - n c)) = Some (letter nxt))"

definition missTimer :: "App \<Rightarrow> Stimulus \<Rightarrow> Tally \<Rightarrow> Tally" where
  "missTimer c nxt prev =
     (let posMatch = missPosMatch c nxt;
          sndMatch = missSndMatch c nxt;
          upd1 = (if posMatch \<and> allowPressPos c then prev\<lparr>posMisses := posMisses prev + 1\<rparr> else prev);
          upd2 = (if sndMatch \<and> allowPressSnd c then upd1\<lparr>sndMisses := sndMisses upd1 + 1\<rparr> else upd1)
      in upd2)"

text \<open>
  The cell \<open>n\<close> holds a JavaScript number, a double; the model holds its value, an
  integer. The block-end branch computes \<open>n + 1\<close> and \<open>n - 1\<close> on it, and the sum of
  two doubles is the double nearest the exact sum, a tie going to the even
  significand. \<open>ulp a\<close> is the distance between neighbouring doubles at the
  magnitude \<open>a\<close> (1 below \<open>2^53\<close>, doubling with every further bit), and \<open>toDouble\<close>
  rounds an integer to the nearest multiple of it. The nearest double to \<open>n + 1\<close> or
  \<open>n - 1\<close> is finite for every finite \<open>n\<close>, so no infinity arises here.
\<close>

function ulp :: "nat \<Rightarrow> nat" where
  "ulp a = (if a < 2 ^ 53 then 1 else 2 * ulp (a div 2))"
  by pat_completeness auto
termination
  by (relation "measure id") auto

declare ulp.simps [simp del]

definition toDouble :: "int \<Rightarrow> int" where
  "toDouble x =
     (let a = nat \<bar>x\<bar>;
          u = ulp a;
          q = a div u;
          r = a mod u;
          m = (if 2 * r < u \<or> (2 * r = u \<and> even q) then q else q + 1)
      in sgn x * int (m * u))"

text \<open>The \<open>nextN\<close> of the block-end branch.\<close>

definition nextN :: "App \<Rightarrow> int" where
  "nextN a =
     (let posAtt = posHits (tally a) + posMisses (tally a);
          sndAtt = sndHits (tally a) + sndMisses (tally a);
          combinedAttempts = posAtt + sndAtt;
          combinedHits = posHits (tally a) + sndHits (tally a);
          acc = (if combinedAttempts \<noteq> 0 then real combinedHits / real combinedAttempts else 0)
      in if acc \<ge> 0.75 then toDouble (n a + 1)
         else if acc < 0.55 then max 1 (toDouble (n a - 1))
         else n a)"

text \<open>
  One run of the interval callback with the drawn stimulus \<open>nxt\<close>. The function the
  callback returns (\<open>() => clearTimeout(missTimer)\<close>) is dropped by \<open>useInterval\<close>,
  which calls \<open>savedCallback.current()\<close> and ignores the result: nothing ever clears a
  timeout, so a tick only adds to \<open>pending\<close>.
\<close>

definition tick :: "Stimulus \<Rightarrow> Sys \<Rightarrow> Sys" where
  "tick nxt s =
     (let a = app s in
      if \<not> running a then s
      else if trialIdx a \<ge> blockLen a then s\<lparr>pending := pending s @ [ResetTimer (nextN a)]\<rparr>
      else \<lparr>app = a\<lparr>stream := stream a @ [nxt], current := Some nxt, trialIdx := trialIdx a + 1,
                      allowPressPos := True, allowPressSnd := True\<rparr>,
            pending = pending s @ [MissTimer a nxt]\<rparr>)"

fun fire :: "Timer \<Rightarrow> App \<Rightarrow> App" where
  "fire (MissTimer c nxt) a = a\<lparr>tally := missTimer c nxt (tally a)\<rparr>"
| "fire (ResetTimer v) a = resetBlock (Some v) a"

subsection \<open>Events\<close>

text \<open>
  What can happen to the component: the buttons (\<open>Start\<close>, \<open>Stop\<close>, \<open>Reset Block\<close>, the
  two match buttons), a tick of the interval, the expiry of the \<open>i\<close>-th pending timeout,
  and the three number inputs of the settings, whose \<open>onChange\<close> clamps the parsed
  value (the argument of \<open>SetN\<close> is the number \<open>parseInt\<close> returned). The match
  buttons are disabled while \<open>running\<close> is false; \<open>Press\<close> calls
  \<open>handlePress\<close> regardless, which allows more than the page does.
\<close>

datatype Event =
    StartClick
  | StopClick
  | ResetBlockClick
  | Tick Stimulus
  | Fire nat
  | Press Kind
  | SetN int
  | SetSpeedMs int
  | SetBlockLen int

fun step :: "Event \<Rightarrow> Sys \<Rightarrow> Sys" where
  "step StartClick s = s\<lparr>app := start (app s)\<rparr>"
| "step StopClick s = s\<lparr>app := stop (app s)\<rparr>"
| "step ResetBlockClick s = s\<lparr>app := resetBlock None (app s)\<rparr>"
| "step (Tick nxt) s = tick nxt s"
| "step (Fire i) s =
     (if i < length (pending s)
      then \<lparr>app = fire (pending s ! i) (app s), pending = take i (pending s) @ drop (Suc i) (pending s)\<rparr>
      else s)"
| "step (Press kind) s = s\<lparr>app := handlePress kind (app s)\<rparr>"
| "step (SetN v) s = s\<lparr>app := (app s)\<lparr>n := max 1 v\<rparr>\<rparr>"
| "step (SetSpeedMs v) s = s\<lparr>app := (app s)\<lparr>speedMs := max 300 v\<rparr>\<rparr>"
| "step (SetBlockLen v) s = s\<lparr>app := (app s)\<lparr>blockLen := nat (max 8 v)\<rparr>\<rparr>"

fun run :: "Event list \<Rightarrow> Sys \<Rightarrow> Sys" where
  "run [] s = s"
| "run (e # es) s = run es (step e s)"

subsection \<open>Runs within blocks\<close>

text \<open>
  An event \<open>resets\<close> when it calls \<open>resetBlock\<close>: the \<open>Start\<close> and \<open>Reset Block\<close>
  buttons, and the expiry of the timeout that a block-end tick scheduled. A run is
  \<open>orderly\<close> when every reset in it happens with no miss timer pending. The interval
  does that by itself: the miss timer of a trial expires 80 ms before the next
  tick, and the block-end timeout 400 ms after the tick that follows the last trial.
  A button pressed in the middle of a trial does not.
\<close>

fun isMissTimer :: "Timer \<Rightarrow> bool" where
  "isMissTimer (MissTimer c nxt) = True"
| "isMissTimer (ResetTimer v) = False"

fun resets :: "Event \<Rightarrow> Sys \<Rightarrow> bool" where
  "resets StartClick s = True"
| "resets ResetBlockClick s = True"
| "resets (Fire i) s = (i < length (pending s) \<and> \<not> isMissTimer (pending s ! i))"
| "resets e s = False"

fun orderly :: "Event list \<Rightarrow> Sys \<Rightarrow> bool" where
  "orderly [] s = True"
| "orderly (e # es) s =
     ((if resets e s then \<not> list_ex isMissTimer (pending s) else True) \<and> orderly es (step e s))"


text \<open>
  The trials of the current block whose miss timer has expired: those started, less
  those whose timer is still pending.
\<close>

definition closedTrials :: "Sys \<Rightarrow> nat" where
  "closedTrials s = trialIdx (app s) - length (filter isMissTimer (pending s))"


subsection \<open>Invariants of a run\<close>

text \<open>
  What a pending timeout will add to \<open>posMisses\<close> and to \<open>sndMisses\<close> when it expires,
  and the sum of that over all pending timeouts.
\<close>

fun willMissPos :: "Timer \<Rightarrow> nat" where
  "willMissPos (MissTimer c nxt) = (if missPosMatch c nxt \<and> allowPressPos c then 1 else 0)"
| "willMissPos (ResetTimer v) = 0"

fun willMissSnd :: "Timer \<Rightarrow> nat" where
  "willMissSnd (MissTimer c nxt) = (if missSndMatch c nxt \<and> allowPressSnd c then 1 else 0)"
| "willMissSnd (ResetTimer v) = 0"

definition owedPos :: "Sys \<Rightarrow> nat" where
  "owedPos s = sum_list (map willMissPos (pending s))"

definition owedSnd :: "Sys \<Rightarrow> nat" where
  "owedSnd s = sum_list (map willMissSnd (pending s))"

definition consistent :: "Sys \<Rightarrow> bool" where
  "consistent s = (1 \<le> n (app s) \<and> trialIdx (app s) = length (stream (app s)))"

text \<open>
  Hits and misses, with the misses still owed by pending timers and the one hit an
  open channel can still take, stay within the number of trials started.
\<close>

definition sumBound :: "Sys \<Rightarrow> bool" where
  "sumBound s =
     (posHits (tally (app s)) + posMisses (tally (app s)) + owedPos s
        + (if allowPressPos (app s) \<and> 1 \<le> trialIdx (app s) then 1 else 0) \<le> trialIdx (app s)
      \<and> sndHits (tally (app s)) + sndMisses (tally (app s)) + owedSnd s
        + (if allowPressSnd (app s) \<and> 1 \<le> trialIdx (app s) then 1 else 0) \<le> trialIdx (app s))"

subsection \<open>The match detector as the specification words it\<close>

text \<open>
  The specification's \<open>isMatch(history, i, n)\<close>: both components false when
  \<open>i - n < 0\<close>, otherwise the position and the letter of trial \<open>i\<close> compared, each on
  its own, with those of trial \<open>i - n\<close>. The component has no such function; it
  computes the two booleans inline, in \<open>handlePress\<close> and in the miss timer.
\<close>

definition isMatch_spec :: "Stimulus list \<Rightarrow> nat \<Rightarrow> int \<Rightarrow> bool \<times> bool" where
  "isMatch_spec history i k =
     (if int i - k < 0 then (False, False)
      else (pos (history ! i) = pos (history ! nat (int i - k)),
            letter (history ! i) = letter (history ! nat (int i - k))))"

subsection \<open>The trials of a block by what they repeat\<close>






text \<open>Whether the last trial of the stream repeats the one \<open>n\<close> back.\<close>

definition lastRepeatsPos :: "App \<Rightarrow> bool" where
  "lastRepeatsPos a =
     (stream a \<noteq> [] \<and> fst (isMatch_spec (stream a) (length (stream a) - 1) (n a)))"

definition lastRepeatsSnd :: "App \<Rightarrow> bool" where
  "lastRepeatsSnd a =
     (stream a \<noteq> [] \<and> snd (isMatch_spec (stream a) (length (stream a) - 1) (n a)))"

text \<open>
  For one channel: the hits, with the one an open channel can still take when the
  last trial repeats, and the misses, with those owed by pending timers, each stay
  within the number of repeating trials.
\<close>

definition repOK :: "nat \<Rightarrow> nat \<Rightarrow> nat \<Rightarrow> bool \<Rightarrow> bool \<Rightarrow> nat \<Rightarrow> bool" where
  "repOK h m owed allow lastRep reps =
     (h + (if allow \<and> lastRep then 1 else 0) \<le> reps \<and> m + owed \<le> reps)"


subsection \<open>The difficulty rule as the specification words it\<close>

text \<open>
  The specification's decision rule on integers: with the combined accuracy (0 when
  there was no attempt), \<open>n + 1\<close> at 0.75 or more, \<open>max 1 (n - 1)\<close> below 0.55, and
  \<open>n\<close> otherwise.
\<close>

definition nextN_spec :: "int \<Rightarrow> Tally \<Rightarrow> int" where
  "nextN_spec k t =
     (let acc = (if posHits t + posMisses t + sndHits t + sndMisses t \<noteq> 0
                 then real (posHits t + sndHits t)
                      / real (posHits t + posMisses t + sndHits t + sndMisses t)
                 else 0)
      in if acc \<ge> 0.75 then k + 1 else if acc < 0.55 then max 1 (k - 1) else k)"

subsection \<open>Stimuli used in the examples\<close>

definition stimA :: Stimulus where
  "stimA = \<lparr>pos = 4, letter = ''A''\<rparr>"

definition stimB :: Stimulus where
  "stimB = \<lparr>pos = 1, letter = ''K''\<rparr>"

definition stimC :: Stimulus where
  "stimC = \<lparr>pos = 4, letter = ''M''\<rparr>"

definition stimD :: Stimulus where
  "stimD = \<lparr>pos = 7, letter = ''S''\<rparr>"

subsection \<open>Runs used in the examples\<close>

text \<open>Trials in which nobody presses: each tick followed by the expiry of its miss timer.\<close>

fun quiet :: "Stimulus list \<Rightarrow> Event list" where
  "quiet [] = []"
| "quiet (x # xs) = Tick x # Fire 0 # quiet xs"

text \<open>
  A whole block of 20 trials at the default \<open>n = 2\<close> with no press, in which no
  stimulus repeats the one two back on either channel.
\<close>

definition quietBlock :: "Event list" where
  "quietBlock = StartClick # quiet [stimA, stimB, stimD, stimA, stimB, stimD, stimA, stimB, stimD,
     stimA, stimB, stimD, stimA, stimB, stimD, stimA, stimB, stimD, stimA, stimB]"


text \<open>
  At \<open>n = 1\<close>: three trials at the same position. No press in the first; in the second
  a press after its miss timer has expired; in the third a press at once.
\<close>

definition latePress :: "Event list" where
  "latePress = [SetN 1, StartClick, Tick stimA, Fire 0, Tick stimC, Fire 0, Press Pos,
     Tick stimA, Press Pos]"

text \<open>
  A whole block of 8 trials at \<open>n = 1\<close>, every trial at the same position and with
  a press on the position button in its window: one false alarm, then seven hits.
  Before the tick that ends the block, 9007199254740992 (that is \<open>2^53\<close>) is typed
  into the field for \<open>n\<close>.
\<close>

definition bigBlock :: "Event list" where
  "bigBlock = [SetBlockLen 8, SetN 1, StartClick,
     Tick stimA, Press Pos, Fire 0, Tick stimC, Press Pos, Fire 0,
     Tick stimA, Press Pos, Fire 0, Tick stimC, Press Pos, Fire 0,
     Tick stimA, Press Pos, Fire 0, Tick stimC, Press Pos, Fire 0,
     Tick stimA, Press Pos, Fire 0, Tick stimC, Press Pos, Fire 0,
     SetN 9007199254740992]"




subsection \<open>Block ends used in the examples\<close>

text \<open>
  The render a tick finds at the end of a block of 20 trials, with the given \<open>n\<close>
  and the given hits and misses.
\<close>

definition blockEnd :: "int \<Rightarrow> nat \<Rightarrow> nat \<Rightarrow> nat \<Rightarrow> nat \<Rightarrow> Sys" where
  "blockEnd k ph pm sh sm =
     \<lparr>app = initApp\<lparr>running := True, n := k, trialIdx := 20,
          tally := \<lparr>posHits = ph, posMisses = pm, posFalse = 0, sndHits = sh, sndMisses = sm, sndFalse = 0\<rparr>\<rparr>,
      pending = []\<rparr>"

section \<open>Properties\<close>

text \<open>The stimuli of the examples are among those the generator can draw.\<close>

lemma examples_generated: "generated stimA" "generated stimB" "generated stimC"
  by (simp_all add: generated_def GRID_SIZE_def LETTER_POOL_def stimA_def stimB_def stimC_def)

lemma stimD_generated: "generated stimD"
  by (simp add: generated_def GRID_SIZE_def LETTER_POOL_def stimD_def)

text \<open>The equations that evaluate a run on given stimuli.\<close>

lemmas ev = initSys_def initApp_def emptyTally_def DEFAULT_BLOCK_LEN_def start_def stop_def
  resetBlock_def tick_def handlePress_def missTimer_def missPosMatch_def missSndMatch_def
  pressPosMatch_def pressSndMatch_def elemAt_def Let_def stimA_def stimB_def stimC_def nextN_def

subsection \<open>\<open>resetBlock\<close>\<close>

text \<open>
  C9. \<open>resetBlock()\<close> sets the trial index to 0, empties the stream, clears the current
  stimulus, zeroes the six counters and re-opens both channels; \<open>running\<close>, \<open>n\<close>, the
  speed, the block length and the audio settings stay as they were. With a number
  \<open>v\<close> it does the same and sets \<open>n\<close> to \<open>max 1 v\<close>.
\<close>

theorem resetBlock_frame:
  "resetBlock None a =
     \<lparr>running = running a, n = n a, speedMs = speedMs a, blockLen = blockLen a, trialIdx = 0,
      stream = [], current = None,
      tally = \<lparr>posHits = 0, posMisses = 0, posFalse = 0, sndHits = 0, sndMisses = 0, sndFalse = 0\<rparr>,
      allowPressPos = True, allowPressSnd = True,
      audioEnabled = audioEnabled a, useSpeech = useSpeech a, voice = voice a, lang = lang a\<rparr>
   \<and> resetBlock (Some v) a = (resetBlock None a)\<lparr>n := max 1 v\<rparr>"
  by (simp add: resetBlock_def emptyTally_def)

theorem resetBlock_frame_witness:
  "resetBlock None (initApp\<lparr>trialIdx := 5, running := True, n := 3\<rparr>) = initApp\<lparr>running := True, n := 3\<rparr>
   \<and> n (resetBlock (Some 0) initApp) = 1
   \<and> n (resetBlock (Some 4) initApp) = 4"
  using resetBlock_frame [of "initApp\<lparr>trialIdx := 5, running := True, n := 3\<rparr>" 0]
    resetBlock_frame [of initApp 0] resetBlock_frame [of initApp 4]
  by (simp add: initApp_def emptyTally_def)

subsection \<open>A press with no current stimulus\<close>

text \<open>
  C10. While there is no current stimulus, \<open>handlePress\<close> on either channel changes
  nothing: neither the tally nor any other cell, nor the pending timeouts. That is
  the case after \<open>start\<close> and before the first tick, after \<open>stop\<close>, and after a
  block reset.
\<close>

theorem handlePress_no_current:
  "(current a = None \<longrightarrow> handlePress kind a = a)
   \<and> handlePress kind (stop a) = stop a
   \<and> handlePress kind (start a) = start a
   \<and> handlePress kind (resetBlock v a) = resetBlock v a
   \<and> (current (app s) = None \<longrightarrow> step (Press kind) s = s)"
  by (cases v) (simp_all add: handlePress_def stop_def start_def resetBlock_def)

theorem handlePress_no_current_witness:
  "current (app (run [StartClick] initSys)) = None
   \<and> step (Press Pos) (run [StartClick] initSys) = run [StartClick] initSys
   \<and> step (Press Snd) (run [StartClick] initSys) = run [StartClick] initSys"
  using handlePress_no_current [of "start initApp" Pos None "run [StartClick] initSys"]
    handlePress_no_current [of "start initApp" Snd None "run [StartClick] initSys"]
  by (simp add: initSys_def start_def resetBlock_def)

subsection \<open>Accuracy\<close>

text \<open>
  C5. The accuracy of a channel is hits / (hits + misses), and 0 when hits + misses
  is 0; the combined accuracy is (posHits + sndHits) / (posHits + posMisses + sndHits +
  sndMisses), and 0 when that sum is 0. The false-alarm counters have no part in
  either: changing them changes no accuracy.
\<close>

theorem accuracy_formulas:
  "posAcc t = (if posHits t + posMisses t = 0 then 0
               else real (posHits t) / real (posHits t + posMisses t))
   \<and> sndAcc t = (if sndHits t + sndMisses t = 0 then 0
                  else real (sndHits t) / real (sndHits t + sndMisses t))
   \<and> combinedAcc t = (if posHits t + posMisses t + sndHits t + sndMisses t = 0 then 0
                       else real (posHits t + sndHits t)
                            / real (posHits t + posMisses t + sndHits t + sndMisses t))
   \<and> posAcc (t\<lparr>posFalse := x, sndFalse := y\<rparr>) = posAcc t
   \<and> sndAcc (t\<lparr>posFalse := x, sndFalse := y\<rparr>) = sndAcc t
   \<and> combinedAcc (t\<lparr>posFalse := x, sndFalse := y\<rparr>) = combinedAcc t"
  by (simp add: posAcc_def sndAcc_def combinedAcc_def Let_def)

theorem accuracy_formulas_witness:
  "posAcc \<lparr>posHits = 8, posMisses = 2, posFalse = 5, sndHits = 7, sndMisses = 3, sndFalse = 1\<rparr> = 4 / 5
   \<and> sndAcc \<lparr>posHits = 8, posMisses = 2, posFalse = 5, sndHits = 7, sndMisses = 3, sndFalse = 1\<rparr> = 7 / 10
   \<and> combinedAcc \<lparr>posHits = 8, posMisses = 2, posFalse = 5, sndHits = 7, sndMisses = 3, sndFalse = 1\<rparr> = 3 / 4
   \<and> combinedAcc emptyTally = 0"
  using accuracy_formulas [of "\<lparr>posHits = 8, posMisses = 2, posFalse = 5, sndHits = 7, sndMisses = 3, sndFalse = 1\<rparr>" 0 0]
    accuracy_formulas [of emptyTally 0 0]
  by (simp add: emptyTally_def)

subsection \<open>The end of a block\<close>

lemma ulp_small: "a < 2 ^ 53 \<Longrightarrow> ulp a = 1"
  by (subst ulp.simps) simp

lemma ulp_next: "2 ^ 53 \<le> a \<Longrightarrow> a < 2 ^ 54 \<Longrightarrow> ulp a = 2"
  by (subst ulp.simps) (simp add: ulp_small)

text \<open>Up to \<open>2^53\<close> every integer is a double.\<close>

lemma toDouble_exact:
  assumes "\<bar>x\<bar> \<le> 2 ^ 53"
  shows "toDouble x = x"
proof (cases "\<bar>x\<bar> < 2 ^ 53")
  case True
  then have "nat \<bar>x\<bar> < 2 ^ 53" by simp
  then have "ulp (nat \<bar>x\<bar>) = 1" by (rule ulp_small)
  then show ?thesis by (simp add: toDouble_def Let_def mult_sgn_abs)
next
  case False
  with assms have e: "\<bar>x\<bar> = 2 ^ 53" by simp
  then have n: "nat \<bar>x\<bar> = 2 ^ 53" by simp
  have u: "ulp (2 ^ 53) = 2" by (rule ulp_next) simp_all
  have "sgn x * \<bar>x\<bar> = x" by (rule mult_sgn_abs)
  then show ?thesis
    unfolding toDouble_def Let_def n u using e by simp
qed

text \<open>\<open>2^53 + 1\<close> lies halfway between two doubles, and the even one is \<open>2^53\<close>.\<close>

lemma toDouble_2_53_1: "toDouble (9007199254740992 + 1) = 9007199254740992"
proof -
  have u: "ulp (nat \<bar>9007199254740992 + 1\<bar>) = 2" by (rule ulp_next) simp_all
  show ?thesis unfolding toDouble_def Let_def u by simp
qed

lemma nextN_exact:
  assumes "1 \<le> n a" and "n a < 2 ^ 53"
  shows "nextN a = nextN_spec (n a) (tally a)"
proof -
  have p: "toDouble (n a + 1) = n a + 1" and m: "toDouble (n a - 1) = n a - 1"
    using assms by (simp_all add: toDouble_exact)
  show ?thesis
    by (simp only: nextN_def nextN_spec_def Let_def add.assoc p m)
qed

text \<open>
  C2, as the component has it. A tick that finds the trial counter at the block
  length schedules a block reset with \<open>nextN\<close>, chosen from the combined accuracy acc
  = (posHits + sndHits) / (posHits + posMisses + sndHits + sndMisses) (0 when there
  was no attempt): the double nearest \<open>n + 1\<close> when acc is at least 0.75, \<open>max 1\<close> of
  the double nearest \<open>n - 1\<close> when acc is below 0.55, \<open>n\<close> otherwise. For \<open>n\<close> from 1
  to below \<open>2^53\<close> both sums are exact and \<open>nextN\<close> is the specification's rule. When
  the reset runs it sets \<open>n\<close> to \<open>max 1 nextN\<close>, so the new \<open>n\<close> is never below 1, and
  for \<open>n\<close> in that range it is the rule's value.
\<close>

theorem block_end_next_n:
  assumes "running (app s)" and "blockLen (app s) \<le> trialIdx (app s)"
  shows "tick nxt s = s\<lparr>pending := pending s @ [ResetTimer (nextN (app s))]\<rparr>
       \<and> nextN (app s) =
           (let t = tally (app s);
                acc = (if posHits t + posMisses t + sndHits t + sndMisses t \<noteq> 0
                       then real (posHits t + sndHits t)
                            / real (posHits t + posMisses t + sndHits t + sndMisses t)
                       else 0)
            in if acc \<ge> 0.75 then toDouble (n (app s) + 1)
               else if acc < 0.55 then max 1 (toDouble (n (app s) - 1))
               else n (app s))
       \<and> n (fire (ResetTimer (nextN (app s))) a) = max 1 (nextN (app s))
       \<and> 1 \<le> n (fire (ResetTimer (nextN (app s))) a)
       \<and> (1 \<le> n (app s) \<and> n (app s) < 2 ^ 53 \<longrightarrow>
            nextN (app s) = nextN_spec (n (app s)) (tally (app s))
            \<and> n (fire (ResetTimer (nextN (app s))) a) = nextN_spec (n (app s)) (tally (app s)))"
proof -
  have 1: "tick nxt s = s\<lparr>pending := pending s @ [ResetTimer (nextN (app s))]\<rparr>"
    using assms by (simp add: tick_def Let_def)
  have 2: "nextN (app s) =
           (let t = tally (app s);
                acc = (if posHits t + posMisses t + sndHits t + sndMisses t \<noteq> 0
                       then real (posHits t + sndHits t)
                            / real (posHits t + posMisses t + sndHits t + sndMisses t)
                       else 0)
            in if acc \<ge> 0.75 then toDouble (n (app s) + 1)
               else if acc < 0.55 then max 1 (toDouble (n (app s) - 1))
               else n (app s))"
    by (simp only: nextN_def Let_def add.assoc)
  have 3: "n (fire (ResetTimer v) a) = max 1 v" for v
    by (simp add: resetBlock_def)
  have 4: "1 \<le> k \<Longrightarrow> max 1 (nextN_spec k t) = nextN_spec k t" for k t
    unfolding nextN_spec_def Let_def by (simp only: split: if_split) linarith
  have 5: "1 \<le> n (fire (ResetTimer v) a)" for v
    by (simp only: 3 max.cobounded1)
  have 6: "nextN (app s) = nextN_spec (n (app s)) (tally (app s))"
    if "1 \<le> n (app s) \<and> n (app s) < 2 ^ 53"
    using that by (simp add: nextN_exact)
  have 7: "n (fire (ResetTimer (nextN (app s))) a) = nextN_spec (n (app s)) (tally (app s))"
    if "1 \<le> n (app s) \<and> n (app s) < 2 ^ 53"
    using that by (simp only: 3 6 4)
  show ?thesis
    by (intro conjI impI) (rule 1, rule 2, rule 3, rule 5, erule 6, erule 7)
qed

text \<open>
  The block ends of the specification's examples, with 20 trials done: 15 of 20 at
  \<open>n = 2\<close> gives 3, 5 of 20 at \<open>n = 3\<close> gives 2, 12 of 20 at \<open>n = 4\<close> gives 4, and
  nothing right at \<open>n = 1\<close> gives 1.
\<close>

lemma blockEnd_ready:
  "running (app (blockEnd k ph pm sh sm))"
  "blockLen (app (blockEnd k ph pm sh sm)) \<le> trialIdx (app (blockEnd k ph pm sh sm))"
  "pending (blockEnd k ph pm sh sm) = []"
  "n (app (blockEnd k ph pm sh sm)) = k"
  "tally (app (blockEnd k ph pm sh sm)) =
     \<lparr>posHits = ph, posMisses = pm, posFalse = 0, sndHits = sh, sndMisses = sm, sndFalse = 0\<rparr>"
  by (simp_all add: blockEnd_def initApp_def DEFAULT_BLOCK_LEN_def)

lemma nextN_spec_examples:
  "nextN_spec 2 \<lparr>posHits = 8, posMisses = 2, posFalse = 0, sndHits = 7, sndMisses = 3, sndFalse = 0\<rparr> = 3"
  "nextN_spec 3 \<lparr>posHits = 3, posMisses = 7, posFalse = 0, sndHits = 2, sndMisses = 8, sndFalse = 0\<rparr> = 2"
  "nextN_spec 4 \<lparr>posHits = 6, posMisses = 4, posFalse = 0, sndHits = 6, sndMisses = 4, sndFalse = 0\<rparr> = 4"
  "nextN_spec 1 \<lparr>posHits = 0, posMisses = 10, posFalse = 0, sndHits = 0, sndMisses = 10, sndFalse = 0\<rparr> = 1"
  by (simp_all add: nextN_spec_def Let_def)

lemma quietBlock_app:
  "app (run quietBlock initSys) =
      initApp\<lparr>running := True, audioEnabled := True, trialIdx := 20,
        stream := [stimA, stimB, stimD, stimA, stimB, stimD, stimA, stimB, stimD,
          stimA, stimB, stimD, stimA, stimB, stimD, stimA, stimB, stimD, stimA, stimB],
        current := Some stimB\<rparr>"
  "pending (run quietBlock initSys) = []"
  by (simp_all add: ev quietBlock_def stimD_def)

lemma run_append: "run (xs @ ys) s = run ys (run xs s)"
  by (induction xs arbitrary: s) simp_all

text \<open>
  And a block end reached by a run: after \<open>quietBlock\<close> the accuracy is 0, and the
  next tick schedules the reset to \<open>n = 1\<close>.
\<close>

theorem block_end_next_n_witness:
  "running (app (blockEnd 2 8 2 7 3))
   \<and> blockLen (app (blockEnd 2 8 2 7 3)) \<le> trialIdx (app (blockEnd 2 8 2 7 3))
   \<and> (1::int) \<le> 2 \<and> (2::int) < 2 ^ 53
   \<and> pending (tick stimA (blockEnd 2 8 2 7 3)) = [ResetTimer 3]
   \<and> n (fire (ResetTimer (nextN (app (blockEnd 2 8 2 7 3)))) initApp) = 3
   \<and> n (fire (ResetTimer (nextN (app (blockEnd 3 3 7 2 8)))) initApp) = 2
   \<and> n (fire (ResetTimer (nextN (app (blockEnd 4 6 4 6 4)))) initApp) = 4
   \<and> n (fire (ResetTimer (nextN (app (blockEnd 1 0 10 0 10)))) initApp) = 1
   \<and> running (app (run quietBlock initSys))
   \<and> blockLen (app (run quietBlock initSys)) \<le> trialIdx (app (run quietBlock initSys))
   \<and> pending (run (quietBlock @ [Tick stimA]) initSys) = [ResetTimer 1]
   \<and> n (app (run (quietBlock @ [Tick stimA, Fire 0]) initSys)) = 1"
proof -
  have B: "tick stimA (blockEnd k ph pm sh sm)
        = (blockEnd k ph pm sh sm)\<lparr>pending := [ResetTimer (nextN (app (blockEnd k ph pm sh sm)))]\<rparr>
      \<and> nextN (app (blockEnd k ph pm sh sm))
        = nextN_spec k \<lparr>posHits = ph, posMisses = pm, posFalse = 0,
                         sndHits = sh, sndMisses = sm, sndFalse = 0\<rparr>
      \<and> n (fire (ResetTimer (nextN (app (blockEnd k ph pm sh sm)))) initApp)
        = nextN_spec k \<lparr>posHits = ph, posMisses = pm, posFalse = 0,
                         sndHits = sh, sndMisses = sm, sndFalse = 0\<rparr>"
    if "1 \<le> k \<and> k < 2 ^ 53" for k ph pm sh sm
    using block_end_next_n [OF blockEnd_ready(1,2), of stimA k ph pm sh sm initApp,
        unfolded blockEnd_ready(3,4,5) append_Nil] that
    by blast
  have r: "running (app (run quietBlock initSys))"
    and l: "blockLen (app (run quietBlock initSys)) \<le> trialIdx (app (run quietBlock initSys))"
    by (simp_all add: quietBlock_app initApp_def DEFAULT_BLOCK_LEN_def)
  have q: "n (app (run quietBlock initSys)) = 2"
    "nextN_spec 2 (tally (app (run quietBlock initSys))) = 1"
    by (simp_all add: quietBlock_app nextN_spec_def initApp_def emptyTally_def Let_def)
  have Q: "tick stimA (run quietBlock initSys)
        = (run quietBlock initSys)\<lparr>pending := [ResetTimer (nextN (app (run quietBlock initSys)))]\<rparr>
      \<and> nextN (app (run quietBlock initSys)) = 1"
    using block_end_next_n [OF r l, of stimA initApp, unfolded q quietBlock_app(2) append_Nil]
    by simp
  have "pending (tick stimA (blockEnd 2 8 2 7 3)) = [ResetTimer 3]"
    using B [of 2 8 2 7 3] by (simp add: nextN_spec_examples)
  moreover have "n (fire (ResetTimer (nextN (app (blockEnd 2 8 2 7 3)))) initApp) = 3"
    using B [of 2 8 2 7 3] by (simp add: nextN_spec_examples resetBlock_def)
  moreover have "n (fire (ResetTimer (nextN (app (blockEnd 3 3 7 2 8)))) initApp) = 2"
    using B [of 3 3 7 2 8] by (simp add: nextN_spec_examples resetBlock_def)
  moreover have "n (fire (ResetTimer (nextN (app (blockEnd 4 6 4 6 4)))) initApp) = 4"
    using B [of 4 6 4 6 4] by (simp add: nextN_spec_examples resetBlock_def)
  moreover have "n (fire (ResetTimer (nextN (app (blockEnd 1 0 10 0 10)))) initApp) = 1"
    using B [of 1 0 10 0 10] by (simp add: nextN_spec_examples resetBlock_def)
  moreover have "pending (run (quietBlock @ [Tick stimA]) initSys) = [ResetTimer 1]"
    using Q by (simp add: run_append)
  moreover have "n (app (run (quietBlock @ [Tick stimA, Fire 0]) initSys)) = 1"
    using Q by (simp add: run_append resetBlock_def)
  ultimately show ?thesis using r l by (simp only: blockEnd_ready(1,2) simp_thms) simp
qed

text \<open>
  C2 as stated fails where \<open>n + 1\<close> is not a double. \<open>bigBlock\<close> ends a block of 8
  trials with seven hits and no miss, accuracy 1, and \<open>n\<close> at \<open>2^53\<close>. The tick that
  ends the block schedules the reset with \<open>2^53\<close> again, not with \<open>2^53 + 1\<close>, and
  after the reset \<open>n\<close> is what it was.
\<close>

theorem next_n_rounding_counterexample:
  "running (app (run bigBlock initSys))
   \<and> trialIdx (app (run bigBlock initSys)) = blockLen (app (run bigBlock initSys))
   \<and> n (app (run bigBlock initSys)) = 9007199254740992
   \<and> posHits (tally (app (run bigBlock initSys))) = 7
   \<and> posMisses (tally (app (run bigBlock initSys))) = 0
   \<and> sndHits (tally (app (run bigBlock initSys))) = 0
   \<and> sndMisses (tally (app (run bigBlock initSys))) = 0
   \<and> combinedAcc (tally (app (run bigBlock initSys))) = 1
   \<and> nextN_spec (n (app (run bigBlock initSys))) (tally (app (run bigBlock initSys)))
       = 9007199254740993
   \<and> pending (run (bigBlock @ [Tick stimA]) initSys) = [ResetTimer 9007199254740992]
   \<and> n (app (run (bigBlock @ [Tick stimA, Fire 0]) initSys)) = 9007199254740992
   \<and> n (app (run (bigBlock @ [Tick stimA, Fire 0]) initSys))
       \<noteq> n (app (run bigBlock initSys)) + 1"
proof -
  have t: "toDouble 9007199254740993 = 9007199254740992"
    using toDouble_2_53_1 by simp
  have a: "app (run bigBlock initSys) =
      initApp\<lparr>running := True, audioEnabled := True, n := 9007199254740992, blockLen := 8,
        trialIdx := 8,
        stream := [stimA, stimC, stimA, stimC, stimA, stimC, stimA, stimC],
        current := Some stimC,
        tally := emptyTally\<lparr>posHits := 7, posFalse := 1\<rparr>,
        allowPressPos := False\<rparr>"
    and p: "pending (run bigBlock initSys) = []"
    by (simp_all add: ev bigBlock_def)
  have v: "nextN (app (run bigBlock initSys)) = 9007199254740992"
    unfolding a by (simp add: nextN_def initApp_def emptyTally_def Let_def t)
  have k: "tick stimA (run bigBlock initSys)
      = (run bigBlock initSys)\<lparr>pending := [ResetTimer 9007199254740992]\<rparr>"
    using v by (simp add: tick_def Let_def a p initApp_def)
  show ?thesis
    unfolding run_append
    by (simp add: k p, simp add: a initApp_def emptyTally_def combinedAcc_def nextN_spec_def
        resetBlock_def Let_def)
qed

subsection \<open>The match detector\<close>

text \<open>
  C4. For every history, every trial index \<open>i\<close> in it and every offset \<open>n\<close> of at least
  1: during trial \<open>i\<close> the stream is the history up to and including \<open>i\<close>, and the two
  booleans \<open>handlePress\<close> computes for the stimulus of trial \<open>i\<close> are those of
  \<open>isMatch_spec\<close>; the tick of trial \<open>i\<close> captured the history before \<open>i\<close>, and the two
  booleans of its miss timer are those of \<open>isMatch_spec\<close> as well. So both are false
  when \<open>i - n < 0\<close>, and otherwise the position and the letter are compared, each on
  its own.
\<close>

theorem match_detector:
  assumes "i < length history" and "1 \<le> k"
  shows "(pressPosMatch (a\<lparr>stream := take (Suc i) history, n := k\<rparr>) (history ! i),
          pressSndMatch (a\<lparr>stream := take (Suc i) history, n := k\<rparr>) (history ! i))
           = isMatch_spec history i k
       \<and> (missPosMatch (a\<lparr>stream := take i history, n := k\<rparr>) (history ! i),
          missSndMatch (a\<lparr>stream := take i history, n := k\<rparr>) (history ! i))
           = isMatch_spec history i k"
proof (cases "int i - k < 0")
  case True
  then show ?thesis
    by (simp add: pressPosMatch_def pressSndMatch_def missPosMatch_def missSndMatch_def
        isMatch_spec_def Let_def min_def)
next
  case False
  with assms have j: "nat (int i - k) < i" "nat (int i - k) < length history" by auto
  from False assms have len: "min (length history) (Suc i) = Suc i" "min (length history) i = i"
    by auto
  from False assms j show ?thesis
    by (auto simp add: pressPosMatch_def pressSndMatch_def missPosMatch_def missSndMatch_def
        isMatch_spec_def Let_def elemAt_def len)
qed

theorem match_detector_witness:
  "(2::nat) < length [stimA, stimB, stimC] \<and> (1::int) \<le> 2
   \<and> (pressPosMatch (initApp\<lparr>stream := [stimA, stimB, stimC], n := 2\<rparr>) stimC,
       pressSndMatch (initApp\<lparr>stream := [stimA, stimB, stimC], n := 2\<rparr>) stimC) = (True, False)
   \<and> (missPosMatch (initApp\<lparr>stream := [stimA, stimB], n := 2\<rparr>) stimC,
       missSndMatch (initApp\<lparr>stream := [stimA, stimB], n := 2\<rparr>) stimC) = (True, False)
   \<and> isMatch_spec [stimA, stimB, stimC] 1 2 = (False, False)"
  using match_detector [of 2 "[stimA, stimB, stimC]" 2 initApp]
  by (simp add: isMatch_spec_def stimA_def stimB_def stimC_def)

subsection \<open>One outcome for each channel and trial\<close>

text \<open>
  C1. The component does not keep to one outcome for each channel and trial. The miss
  timer tests \<open>allowPressPos\<close>, but the one of the render its tick ran in: that is
  whether the channel was answered in the trial before, not in its own. With the
  default \<open>n = 2\<close>: three trials, the third at the position of the first, no press in
  the first two. The tally is empty when the third trial starts; a press on the
  position button in its window is a hit; its miss timer then counts a miss for the
  same trial and channel.
\<close>

theorem hit_and_miss_same_trial:
  "tally (app (run [StartClick, Tick stimA, Fire 0, Tick stimB, Fire 0, Tick stimC] initSys))
       = emptyTally
   \<and> tally (app (run [StartClick, Tick stimA, Fire 0, Tick stimB, Fire 0, Tick stimC,
                       Press Pos] initSys))
       = emptyTally\<lparr>posHits := 1\<rparr>
   \<and> tally (app (run [StartClick, Tick stimA, Fire 0, Tick stimB, Fire 0, Tick stimC,
                       Press Pos, Fire 0] initSys))
       = emptyTally\<lparr>posHits := 1, posMisses := 1\<rparr>"
  by (simp add: ev)

subsection \<open>After \<open>stop\<close>\<close>

text \<open>
  C3. \<open>stop\<close> does not cancel the miss timer of the trial in flight. Three trials as
  above and no press; \<open>Stop\<close> during the third. The component is then idle with an
  empty tally and one timeout pending; when that fires, the tally gets a position
  miss for the trial that was cut short.
\<close>

theorem miss_counted_after_stop:
  "running (app (run [StartClick, Tick stimA, Fire 0, Tick stimB, Fire 0, Tick stimC,
                      StopClick] initSys)) = False
   \<and> tally (app (run [StartClick, Tick stimA, Fire 0, Tick stimB, Fire 0, Tick stimC,
                       StopClick] initSys)) = emptyTally
   \<and> length (pending (run [StartClick, Tick stimA, Fire 0, Tick stimB, Fire 0, Tick stimC,
                            StopClick] initSys)) = 1
   \<and> tally (app (run [StartClick, Tick stimA, Fire 0, Tick stimB, Fire 0, Tick stimC,
                       StopClick, Fire 0] initSys)) = emptyTally\<lparr>posMisses := 1\<rparr>"
  by (simp add: ev)

subsection \<open>A press after the window\<close>

lemma pressPosMatch_tally [simp]: "pressPosMatch (a\<lparr>tally := t\<rparr>) cur = pressPosMatch a cur"
  by (simp add: pressPosMatch_def)

lemma pressSndMatch_tally [simp]: "pressSndMatch (a\<lparr>tally := t\<rparr>) cur = pressSndMatch a cur"
  by (simp add: pressSndMatch_def)




subsection \<open>Hits and misses within the trials started\<close>

text \<open>
  Every event keeps \<open>n\<close> at 1 or more and the trial counter at the length of the
  stream. In an orderly run it keeps \<open>sumBound\<close>, and with a steady \<open>n\<close> also
  \<open>earlyBound\<close>: each is shown for one event at a time, then for a run.
\<close>

lemma consistent_fire:
  "1 \<le> n a \<Longrightarrow> trialIdx a = length (stream a) \<Longrightarrow>
     1 \<le> n (fire t a) \<and> trialIdx (fire t a) = length (stream (fire t a))"
  by (cases t) (simp_all add: resetBlock_def)

lemma consistent_step: "consistent s \<Longrightarrow> consistent (step e s)"
  by (cases e)
     (auto simp add: consistent_def start_def stop_def resetBlock_def tick_def handlePress_def Let_def
        consistent_fire split: option.splits Kind.splits)

lemma sum_list_remove_nth:
  "i < length xs \<Longrightarrow> sum_list (map f (take i xs @ drop (Suc i) xs)) + f (xs ! i) = (sum_list (map f xs) :: nat)"
proof -
  assume "i < length xs"
  then have "xs = take i xs @ xs ! i # drop (Suc i) xs" by (rule id_take_nth_drop)
  then have "sum_list (map f xs) = sum_list (map f (take i xs @ xs ! i # drop (Suc i) xs))" by simp
  then show ?thesis by simp
qed

lemma no_miss_owed:
  "\<not> list_ex isMissTimer ts \<Longrightarrow> sum_list (map willMissPos ts) = 0 \<and> sum_list (map willMissSnd ts) = 0"
proof (induction ts)
  case Nil then show ?case by simp
next
  case (Cons t ts) then show ?case by (cases t) simp_all
qed

lemma no_miss_sub:
  "\<not> list_ex isMissTimer ts \<Longrightarrow> \<not> list_ex isMissTimer (take i ts @ drop (Suc i) ts)"
  by (auto simp add: list_ex_iff dest: in_set_takeD in_set_dropD)

lemma missPosMatch_len: "missPosMatch c nxt \<Longrightarrow> 1 \<le> n c \<Longrightarrow> 1 \<le> length (stream c)"
  by (simp add: missPosMatch_def Let_def)

lemma missSndMatch_len: "missSndMatch c nxt \<Longrightarrow> 1 \<le> n c \<Longrightarrow> 1 \<le> length (stream c)"
  by (simp add: missSndMatch_def Let_def)

lemma pressPosMatch_len: "pressPosMatch a cur \<Longrightarrow> 1 \<le> n a \<Longrightarrow> 2 \<le> length (stream a)"
  by (simp add: pressPosMatch_def Let_def)

lemma pressSndMatch_len: "pressSndMatch a cur \<Longrightarrow> 1 \<le> n a \<Longrightarrow> 2 \<le> length (stream a)"
  by (simp add: pressSndMatch_def Let_def)

lemma sumBound_reset:
  assumes "\<not> list_ex isMissTimer (pending s)"
  shows "sumBound (s\<lparr>app := resetBlock v a\<rparr>)" "sumBound (s\<lparr>app := start a\<rparr>)"
  using no_miss_owed [OF assms]
  by (cases v; simp add: sumBound_def owedPos_def owedSnd_def resetBlock_def start_def emptyTally_def)+

lemma sumBound_tick:
  assumes "consistent s" and "sumBound s"
  shows "sumBound (tick nxt s)"
proof -
  have p: "willMissPos (MissTimer (app s) nxt) \<le> (if allowPressPos (app s) \<and> 1 \<le> trialIdx (app s) then 1 else 0)"
    using assms(1) missPosMatch_len [of "app s" nxt] by (auto simp add: consistent_def)
  have q: "willMissSnd (MissTimer (app s) nxt) \<le> (if allowPressSnd (app s) \<and> 1 \<le> trialIdx (app s) then 1 else 0)"
    using assms(1) missSndMatch_len [of "app s" nxt] by (auto simp add: consistent_def)
  consider (idle) "\<not> running (app s)"
    | (endb) "running (app s)" "blockLen (app s) \<le> trialIdx (app s)"
    | (go) "running (app s)" "\<not> blockLen (app s) \<le> trialIdx (app s)"
    by blast
  then show ?thesis
  proof cases
    case idle
    then show ?thesis using assms(2) by (simp add: tick_def)
  next
    case endb
    then show ?thesis
      using assms(2) by (simp add: tick_def Let_def sumBound_def owedPos_def owedSnd_def)
  next
    case go
    then have t: "tick nxt s =
        \<lparr>app = (app s)\<lparr>stream := stream (app s) @ [nxt], current := Some nxt,
                 trialIdx := trialIdx (app s) + 1, allowPressPos := True, allowPressSnd := True\<rparr>,
         pending = pending s @ [MissTimer (app s) nxt]\<rparr>"
      by (simp add: tick_def Let_def)
    show ?thesis
      unfolding t using assms(2) p q
      by (auto simp add: sumBound_def owedPos_def owedSnd_def split: if_splits
          simp del: willMissPos.simps(1) willMissSnd.simps(1))
  qed
qed

lemma sumBound_press:
  assumes "consistent s" and "sumBound s"
  shows "sumBound (s\<lparr>app := handlePress kind (app s)\<rparr>)"
proof (cases "current (app s)")
  case None
  then show ?thesis using assms(2) by (simp add: handlePress_def sumBound_def owedPos_def owedSnd_def)
next
  case (Some cur)
  have p: "pressPosMatch (app s) cur \<Longrightarrow> 2 \<le> trialIdx (app s)"
    using assms(1) pressPosMatch_len [of "app s" cur] by (simp add: consistent_def)
  have q: "pressSndMatch (app s) cur \<Longrightarrow> 2 \<le> trialIdx (app s)"
    using assms(1) pressSndMatch_len [of "app s" cur] by (simp add: consistent_def)
  show ?thesis
    using assms(2) Some p q
    by (cases kind) (auto simp add: handlePress_def sumBound_def owedPos_def owedSnd_def Let_def)
qed

lemma sumBound_fire_miss:
  assumes "sumBound s" and "i < length (pending s)" and "pending s ! i = MissTimer c nxt"
  shows "sumBound \<lparr>app = fire (pending s ! i) (app s), pending = take i (pending s) @ drop (Suc i) (pending s)\<rparr>"
proof -
  note p = sum_list_remove_nth [OF assms(2), of willMissPos]
  note q = sum_list_remove_nth [OF assms(2), of willMissSnd]
  show ?thesis
    using assms(1) p q
    by (auto simp add: assms(3) sumBound_def owedPos_def owedSnd_def missTimer_def Let_def)
qed

lemma sumBound_fire_reset:
  assumes "\<not> list_ex isMissTimer (pending s)"
  shows "sumBound \<lparr>app = resetBlock v a, pending = take i (pending s) @ drop (Suc i) (pending s)\<rparr>"
  using no_miss_owed [OF no_miss_sub [OF assms, of i]]
  by (cases v; simp add: sumBound_def owedPos_def owedSnd_def resetBlock_def emptyTally_def)

lemma sumBound_step:
  assumes "consistent s" and "sumBound s"
    and "if resets e s then \<not> list_ex isMissTimer (pending s) else True"
  shows "sumBound (step e s)"
proof (cases e)
  case StartClick
  then show ?thesis using assms(3) sumBound_reset(2) by simp
next
  case StopClick
  then show ?thesis using assms(2) by (simp add: sumBound_def stop_def owedPos_def owedSnd_def)
next
  case ResetBlockClick
  then show ?thesis using assms(3) sumBound_reset(1) by simp
next
  case (Tick nxt)
  then show ?thesis using assms(1,2) sumBound_tick by simp
next
  case (Fire i)
  show ?thesis
  proof (cases "i < length (pending s)")
    case False
    then show ?thesis using Fire assms(2) by simp
  next
    case True
    show ?thesis
    proof (cases "pending s ! i")
      case (MissTimer c nxt)
      then show ?thesis using Fire True assms(2) sumBound_fire_miss by simp
    next
      case (ResetTimer v)
      then have "\<not> list_ex isMissTimer (pending s)" using Fire True assms(3) by simp
      then show ?thesis using Fire True ResetTimer sumBound_fire_reset by simp
    qed
  qed
next
  case (Press kind)
  then show ?thesis using assms(1,2) sumBound_press by simp
next
  case (SetN v)
  then show ?thesis using assms(2) by (simp add: sumBound_def owedPos_def owedSnd_def)
next
  case (SetSpeedMs v)
  then show ?thesis using assms(2) by (simp add: sumBound_def owedPos_def owedSnd_def)
next
  case (SetBlockLen v)
  then show ?thesis using assms(2) by (simp add: sumBound_def owedPos_def owedSnd_def)
qed

lemma sumBound_run:
  "consistent s \<Longrightarrow> sumBound s \<Longrightarrow> orderly evs s \<Longrightarrow> consistent (run evs s) \<and> sumBound (run evs s)"
proof (induction evs arbitrary: s)
  case Nil
  then show ?case by simp
next
  case (Cons e evs)
  from Cons.prems have "consistent (step e s)" "sumBound (step e s)" "orderly evs (step e s)"
    by (simp_all add: consistent_step sumBound_step)
  then show ?case using Cons.IH by simp
qed

lemma consistent_init: "consistent initSys"
  by (simp add: consistent_def initSys_def initApp_def)

lemma sumBound_init: "sumBound initSys"
  by (simp add: sumBound_def owedPos_def owedSnd_def initSys_def initApp_def emptyTally_def)

lemma missTimer_early: "int (length (stream c)) < n c \<Longrightarrow> missTimer c nxt prev = prev"
  by (simp add: missTimer_def missPosMatch_def missSndMatch_def Let_def)

text \<open>
  C6, as the component has it. In every state of an orderly run from the first
  render, posHits + posMisses and sndHits + sndMisses are at most \<open>trialIdx\<close>, where
  \<open>trialIdx\<close> is the number of trials started in the block: the tick increments it
  when it shows the stimulus. And the miss timer of a trial whose index is below
  \<open>n\<close> changes nothing.
\<close>

theorem block_tally_bound:
  assumes "orderly evs initSys"
  shows "posHits (tally (app (run evs initSys))) + posMisses (tally (app (run evs initSys)))
           \<le> trialIdx (app (run evs initSys))
       \<and> sndHits (tally (app (run evs initSys))) + sndMisses (tally (app (run evs initSys)))
           \<le> trialIdx (app (run evs initSys))
       \<and> (int (length (stream c)) < n c \<longrightarrow> fire (MissTimer c nxt) a = a)"
proof -
  have "sumBound (run evs initSys)"
    using sumBound_run [OF consistent_init sumBound_init assms] by simp
  then show ?thesis
    by (simp add: sumBound_def missTimer_early)
qed

theorem block_tally_bound_witness:
  "orderly [StartClick, Tick stimA, Fire 0, Tick stimB, Fire 0, Tick stimC, Press Pos, Fire 0] initSys
   \<and> posHits (tally (app (run [StartClick, Tick stimA, Fire 0, Tick stimB, Fire 0, Tick stimC,
                              Press Pos, Fire 0] initSys)))
     + posMisses (tally (app (run [StartClick, Tick stimA, Fire 0, Tick stimB, Fire 0, Tick stimC,
                                   Press Pos, Fire 0] initSys)))
     \<le> trialIdx (app (run [StartClick, Tick stimA, Fire 0, Tick stimB, Fire 0, Tick stimC,
                            Press Pos, Fire 0] initSys))
   \<and> int (length (stream initApp)) < n initApp
   \<and> fire (MissTimer initApp stimA) initApp = initApp"
proof -
  have o: "orderly [StartClick, Tick stimA, Fire 0, Tick stimB, Fire 0, Tick stimC, Press Pos,
      Fire 0] initSys"
    by (simp add: ev)
  have e: "int (length (stream initApp)) < n initApp"
    by (simp add: initApp_def)
  from block_tally_bound [OF o, of initApp stimA initApp] o e show ?thesis by blast
qed

text \<open>
  C6 as stated, with \<open>trialIdx\<close> read as the number of trials whose window has closed,
  fails. In \<open>latePress\<close> the second trial gets a miss when its timer expires and a hit
  from the press that follows; the third gets a hit at once. That is two hits and
  one miss while three trials have started and two windows have closed.
\<close>

theorem closed_window_bound_counterexample:
  "posHits (tally (app (run latePress initSys))) = 2
   \<and> posMisses (tally (app (run latePress initSys))) = 1
   \<and> trialIdx (app (run latePress initSys)) = 3
   \<and> closedTrials (run latePress initSys) = 2
   \<and> \<not> (posHits (tally (app (run latePress initSys))) + posMisses (tally (app (run latePress initSys)))
         \<le> closedTrials (run latePress initSys))"
  by (simp add: ev latePress_def closedTrials_def)

subsection \<open>Hits and misses of a whole block\<close>











lemma lastRepeats_frame [simp]:
  "lastRepeatsPos (a\<lparr>tally := t\<rparr>) = lastRepeatsPos a"
  "lastRepeatsPos (a\<lparr>allowPressPos := b\<rparr>) = lastRepeatsPos a"
  "lastRepeatsPos (a\<lparr>allowPressSnd := b\<rparr>) = lastRepeatsPos a"
  "lastRepeatsPos (a\<lparr>running := b\<rparr>) = lastRepeatsPos a"
  "lastRepeatsPos (a\<lparr>current := c\<rparr>) = lastRepeatsPos a"
  "lastRepeatsPos (a\<lparr>speedMs := v\<rparr>) = lastRepeatsPos a"
  "lastRepeatsPos (a\<lparr>blockLen := l\<rparr>) = lastRepeatsPos a"
  "lastRepeatsSnd (a\<lparr>tally := t\<rparr>) = lastRepeatsSnd a"
  "lastRepeatsSnd (a\<lparr>allowPressPos := b\<rparr>) = lastRepeatsSnd a"
  "lastRepeatsSnd (a\<lparr>allowPressSnd := b\<rparr>) = lastRepeatsSnd a"
  "lastRepeatsSnd (a\<lparr>running := b\<rparr>) = lastRepeatsSnd a"
  "lastRepeatsSnd (a\<lparr>current := c\<rparr>) = lastRepeatsSnd a"
  "lastRepeatsSnd (a\<lparr>speedMs := v\<rparr>) = lastRepeatsSnd a"
  "lastRepeatsSnd (a\<lparr>blockLen := l\<rparr>) = lastRepeatsSnd a"
  by (simp_all add: lastRepeatsPos_def lastRepeatsSnd_def)


lemma repOK_hit: "repOK h m owed True True reps \<Longrightarrow> repOK (h + 1) m owed False lastRep reps"
  by (simp add: repOK_def)


















end
